theory Spec2Isabelle
  imports Main
begin

section \<open>The chat router: a shallow embedding\<close>

text \<open>
  The router of \<^verbatim>\<open>src/unnamed/part_009\<close> (\<^verbatim>\<open>chatRouter\<close>) and the middleware of
  \<^verbatim>\<open>src/src/server/api/trpc.ts\<close> are embedded as pure functions. Everything the handlers
  do beyond returning a value is explicit: the store is a value that is passed in and
  returned, every request to the store or to the model gateway is appended to a trace in
  the order the handler issues it, and a thrown \<^verbatim>\<open>TRPCError\<close> is the \<open>Inl\<close> branch of the
  outcome.

  A JavaScript string is a sequence of UTF-16 code units. The embedding covers the strings
  whose code units are below 256 and writes them as HOL strings, one \<open>char\<close> per code unit.
\<close>

subsection \<open>Strings\<close>

text \<open>White space as \<^verbatim>\<open>String.prototype.trim\<close> and the regular expression class
  \<^verbatim>\<open>\s\<close> see it, among the code units below 256: tab, line feed, vertical tab, form feed,
  carriage return, space and no-break space.\<close>

definition isWhiteSpace :: "char \<Rightarrow> bool" where
  "isWhiteSpace c = (c \<in> {CHR 0x09, CHR 0x0A, CHR 0x0B, CHR 0x0C, CHR 0x0D, CHR 0x20, CHR 0xA0})"

definition trimStart :: "string \<Rightarrow> string" where
  "trimStart s = dropWhile isWhiteSpace s"

definition trimEnd :: "string \<Rightarrow> string" where
  "trimEnd s = rev (dropWhile isWhiteSpace (rev s))"

definition trim :: "string \<Rightarrow> string" where
  "trim s = trimEnd (trimStart s)"

text \<open>\<^verbatim>\<open>toLowerCase\<close> on code units below 256: the letters A to Z, and the Latin-1 capitals
  0xC0 to 0xDE other than the multiplication sign 0xD7, move up by 32.\<close>

definition lowerChar :: "char \<Rightarrow> char" where
  "lowerChar c =
     (let n = (of_char c :: nat)
      in if (65 \<le> n \<and> n \<le> 90) \<or> (192 \<le> n \<and> n \<le> 222 \<and> n \<noteq> 215)
         then char_of (n + 32) else c)"

definition toLowerCase :: "string \<Rightarrow> string" where
  "toLowerCase s = map lowerChar s"

definition startsWith :: "string \<Rightarrow> string \<Rightarrow> bool" where
  "startsWith s p = (take (length p) s = p)"

text \<open>\<^verbatim>\<open>s.substring(0, n)\<close>.\<close>

definition substring0 :: "string \<Rightarrow> nat \<Rightarrow> string" where
  "substring0 s n = take n s"

text \<open>A pattern letter of a regular expression with the flag \<^verbatim>\<open>i\<close> matches a code unit
  when both have the same upper-case form; for an ASCII pattern letter these are the
  letter itself and its other case, no code unit from 128 on.\<close>

definition upperAscii :: "char \<Rightarrow> char" where
  "upperAscii c =
     (let n = (of_char c :: nat)
      in if 97 \<le> n \<and> n \<le> 122 then char_of (n - 32) else c)"

text \<open>\<^verbatim>\<open>/^\/image/i\<close> at the start of the string.\<close>

definition matchesImageToken :: "string \<Rightarrow> bool" where
  "matchesImageToken s = (map upperAscii (take 6 s) = ''/IMAGE'')"

text \<open>\<^verbatim>\<open>s.replace(/^\/image\s*/i, '')\<close>: the pattern is anchored at the first code unit
  of \<open>s\<close>; where it does not match there, \<open>s\<close> is returned as it is.\<close>

definition replaceImageToken :: "string \<Rightarrow> string" where
  "replaceImageToken s =
     (if matchesImageToken s then dropWhile isWhiteSpace (drop 6 s) else s)"

text \<open>\<^verbatim>\<open>/^[A-Za-z0-9+/=]+$/.test(s)\<close>.\<close>

definition isBase64Char :: "char \<Rightarrow> bool" where
  "isBase64Char c =
     (let n = (of_char c :: nat)
      in (65 \<le> n \<and> n \<le> 90) \<or> (97 \<le> n \<and> n \<le> 122) \<or> (48 \<le> n \<and> n \<le> 57)
         \<or> c = CHR ''+'' \<or> c = CHR ''/'' \<or> c = CHR ''='')"

definition looksLikeBase64 :: "string \<Rightarrow> bool" where
  "looksLikeBase64 s = (s \<noteq> [] \<and> list_all isBase64Char s)"

text \<open>Truthiness of an optional string: \<^verbatim>\<open>undefined\<close> and the empty string are falsy.\<close>

definition truthy :: "string option \<Rightarrow> bool" where
  "truthy v = (case v of None \<Rightarrow> False | Some s \<Rightarrow> s \<noteq> [])"

subsection \<open>Errors\<close>

type_synonym js_error = string

datatype trpc_code = UNAUTHORIZED | BAD_REQUEST | INTERNAL_SERVER_ERROR

text \<open>\<^verbatim>\<open>new TRPCError({ code, message, cause })\<close>; a \<^verbatim>\<open>TRPCError\<close> built without a
  message takes its code as message.\<close>

record trpc_error =
  code :: trpc_code
  error_message :: string
  cause :: "js_error option"

subsection \<open>The store\<close>

text \<open>The rows of \<^verbatim>\<open>conversations\<close> and \<^verbatim>\<open>messages\<close>. The timestamp is a natural
  number; \<^verbatim>\<open>updated_at\<close> is never read by the router and is left out.\<close>

record conversation =
  conv_id :: string
  title :: string
  conv_user_id :: string
  conv_created_at :: nat

record message =
  msg_id :: string
  content :: string
  role :: string
  message_type :: string
  user_id :: string
  conversation_id :: string
  created_at :: nat

text \<open>The store holds both tables and a counter \<open>seq\<close> of the rows inserted so far,
  which is also its clock: a new row is stamped \<open>seq\<close>.\<close>

record db =
  conversations :: "conversation list"
  messages :: "message list"
  seq :: nat

text \<open>What the awaited storage client gives back: the promise rejects (\<open>Threw\<close>), or
  it resolves to \<^verbatim>\<open>{ data, error }\<close>.\<close>

datatype 'a reply = Threw js_error | Reply "js_error option" "'a option"

text \<open>How the storage service treats one request: it carries it out, it answers with
  \<^verbatim>\<open>{ data: null, error }\<close> and leaves the tables alone, or the request never
  completes and the awaited promise rejects.\<close>

datatype fault = NoFault | ErrorReply js_error | Throws js_error

subsection \<open>The model gateway\<close>

datatype inline_data = InlineData (inline_mimeType: string) (inline_data: string)

text \<open>A part of a candidate of the image endpoint's response.\<close>

record part =
  part_text :: "string option"
  inlineData :: "inline_data option"

text \<open>\<^verbatim>\<open>responseData\<close>: its candidates, each given as \<^verbatim>\<open>content?.parts\<close>
  (\<open>None\<close> where the content or its parts are missing); no \<^verbatim>\<open>candidates\<close> field is
  the empty list.\<close>

type_synonym response_data = "part list option list"

text \<open>The \<^verbatim>\<open>fetch\<close> of the image endpoint: it throws (or the body is no JSON), it
  answers with a status that is not ok, or it answers ok with \<^verbatim>\<open>responseData\<close>.\<close>

datatype fetch_result = FetchThrew js_error | NotOk nat | Ok response_data

text \<open>A turn \<^verbatim>\<open>{ role, parts: [{ text }] }\<close> of a dialogue.\<close>

datatype turn = Turn (turn_role: string) (turn_text: string)

text \<open>The three shapes of argument \<^verbatim>\<open>multiModalModel.generateContent\<close> is called with.\<close>

datatype gen_request =
    Prompt string
  | PromptWithImage string inline_data
  | Contents "turn list"

subsection \<open>The world outside the handler\<close>

text \<open>The answers of the collaborators during one request: a fault for each request to
  the store, the identifiers the store hands out (\<^verbatim>\<open>gen_random_uuid()\<close>, by sequence
  number), the image endpoint by prompt, and the text model
  (\<^verbatim>\<open>generateContent\<close> followed by \<^verbatim>\<open>response.text()\<close>; \<open>Inl\<close> when either throws).\<close>

record env =
  conv_insert_fault :: fault
  history_select_fault :: fault
  user_insert_fault :: fault
  ai_insert_fault :: fault
  conversations_select_fault :: fault
  messages_select_fault :: fault
  gen_random_uuid :: "nat \<Rightarrow> string"
  fetch_image :: "string \<Rightarrow> fetch_result"
  generateContent :: "gen_request \<Rightarrow> js_error + string"

text \<open>Every request a handler issues, in the order of the source.\<close>

datatype event =
    InsertConversation string string
      \<comment> \<open>\<^verbatim>\<open>from('conversations').insert({ user_id, title })\<close>\<close>
  | SelectHistory string string
      \<comment> \<open>\<^verbatim>\<open>from('messages')\<close>, conversation and user, ascending, \<^verbatim>\<open>limit(20)\<close>\<close>
  | InsertMessage string string string string string
      \<comment> \<open>content, role, message_type, user_id, conversation_id\<close>
  | SelectConversations string
  | SelectMessages string string
  | ImageGeneration string
      \<comment> \<open>the \<^verbatim>\<open>fetch\<close> of the image endpoint, by prompt\<close>
  | GenerateContent gen_request

fun isWrite :: "event \<Rightarrow> bool" where
  "isWrite (InsertConversation _ _) = True"
| "isWrite (InsertMessage _ _ _ _ _) = True"
| "isWrite _ = False"

fun isConversationInsert :: "event \<Rightarrow> bool" where
  "isConversationInsert (InsertConversation _ _) = True"
| "isConversationInsert _ = False"

fun isGatewayCall :: "event \<Rightarrow> bool" where
  "isGatewayCall (ImageGeneration _) = True"
| "isGatewayCall (GenerateContent _) = True"
| "isGatewayCall _ = False"

text \<open>One run of a procedure: what the caller gets, the store afterwards, the requests
  issued.\<close>

record 'a run =
  outcome :: "trpc_error + 'a"
  store :: db
  trace :: "event list"

subsection \<open>The storage client\<close>

text \<open>\<^verbatim>\<open>insert(row).select().single()\<close> on \<^verbatim>\<open>conversations\<close>.\<close>

definition insert_conversation ::
  "env \<Rightarrow> fault \<Rightarrow> db \<Rightarrow> string \<Rightarrow> string \<Rightarrow> conversation reply \<times> db" where
  "insert_conversation e f d uid ttl =
     (case f of
        Throws x \<Rightarrow> (Threw x, d)
      | ErrorReply x \<Rightarrow> (Reply (Some x) None, d)
      | NoFault \<Rightarrow>
          (let row = \<lparr>conv_id = gen_random_uuid e (seq d), title = ttl,
                      conv_user_id = uid, conv_created_at = seq d\<rparr>
           in (Reply None (Some row),
               d\<lparr>conversations := conversations d @ [row], seq := Suc (seq d)\<rparr>)))"

text \<open>\<^verbatim>\<open>insert(row)\<close> on \<^verbatim>\<open>messages\<close>; the reply carries the new row (the handler
  reads it only where it chains \<^verbatim>\<open>.select().single()\<close>).\<close>

definition insert_message ::
  "env \<Rightarrow> fault \<Rightarrow> db \<Rightarrow> string \<Rightarrow> string \<Rightarrow> string \<Rightarrow> string \<Rightarrow> string
     \<Rightarrow> message reply \<times> db" where
  "insert_message e f d c r t uid cid =
     (case f of
        Throws x \<Rightarrow> (Threw x, d)
      | ErrorReply x \<Rightarrow> (Reply (Some x) None, d)
      | NoFault \<Rightarrow>
          (let row = \<lparr>msg_id = gen_random_uuid e (seq d), content = c, role = r,
                      message_type = t, user_id = uid, conversation_id = cid,
                      created_at = seq d\<rparr>
           in (Reply None (Some row),
               d\<lparr>messages := messages d @ [row], seq := Suc (seq d)\<rparr>)))"

text \<open>\<^verbatim>\<open>select('*').eq('conversation_id', cid).eq('user_id', uid)
  .order('created_at', { ascending: true })\<close>, with \<^verbatim>\<open>.limit(n)\<close> when \<open>lim\<close> is
  \<open>Some n\<close>: the rows of the conversation in ascending order of creation, cut after the
  first \<open>n\<close> of that order.\<close>

definition query_messages :: "db \<Rightarrow> string \<Rightarrow> string \<Rightarrow> nat option \<Rightarrow> message list" where
  "query_messages d cid uid lim =
     (let rows = sort_key created_at
                   (filter (\<lambda>m. conversation_id m = cid \<and> user_id m = uid) (messages d))
      in case lim of None \<Rightarrow> rows | Some n \<Rightarrow> take n rows)"

definition select_messages ::
  "fault \<Rightarrow> db \<Rightarrow> string \<Rightarrow> string \<Rightarrow> nat option \<Rightarrow> message list reply" where
  "select_messages f d cid uid lim =
     (case f of
        Throws x \<Rightarrow> Threw x
      | ErrorReply x \<Rightarrow> Reply (Some x) None
      | NoFault \<Rightarrow> Reply None (Some (query_messages d cid uid lim)))"

text \<open>\<^verbatim>\<open>select('*').eq('user_id', uid).order('created_at', { ascending: false })\<close>.\<close>

definition select_conversations :: "fault \<Rightarrow> db \<Rightarrow> string \<Rightarrow> conversation list reply" where
  "select_conversations f d uid =
     (case f of
        Throws x \<Rightarrow> Threw x
      | ErrorReply x \<Rightarrow> Reply (Some x) None
      | NoFault \<Rightarrow>
          Reply None (Some (rev (sort_key conv_created_at
                                  (filter (\<lambda>c. conv_user_id c = uid) (conversations d))))))"

subsection \<open>The context and the middleware\<close>

text \<open>The session of \<^verbatim>\<open>createTRPCContext\<close>, as far as the router reads it:
  \<^verbatim>\<open>ctx.session?.user?.sub\<close>. Building the context, with its one test read of
  \<^verbatim>\<open>conversations\<close>, happens before a procedure runs and is not part of the embedding.\<close>

record auth_user =
  sub :: "string option"

record auth_session =
  user :: "auth_user option"

record ctx =
  session :: "auth_session option"

definition unauthorized :: "string \<Rightarrow> trpc_error" where
  "unauthorized m = \<lparr>code = UNAUTHORIZED, error_message = m, cause = None\<rparr>"

text \<open>\<^verbatim>\<open>enforceUserIsAuthed\<close>: the error, or the context handed to \<^verbatim>\<open>next\<close>.\<close>

definition enforceUserIsAuthed :: "ctx \<Rightarrow> trpc_error + ctx" where
  "enforceUserIsAuthed ctx =
     (case session ctx of
        None \<Rightarrow> Inl (unauthorized ''UNAUTHORIZED'')
      | Some s \<Rightarrow>
          (case user s of
             None \<Rightarrow> Inl (unauthorized ''UNAUTHORIZED'')
           | Some u \<Rightarrow> Inr ctx))"

text \<open>\<^verbatim>\<open>ctx.session?.user?.sub\<close> when it is truthy.\<close>

definition session_sub :: "ctx \<Rightarrow> string option" where
  "session_sub ctx =
     (case session ctx of
        None \<Rightarrow> None
      | Some s \<Rightarrow>
          (case user s of
             None \<Rightarrow> None
           | Some u \<Rightarrow> (if truthy (sub u) then sub u else None)))"

subsection \<open>Input validation\<close>

text \<open>A field of the raw input as it arrives.\<close>

datatype jsval = JUndefined | JNull | JString string | JNumber int | JBool bool

record raw_input =
  raw_message :: jsval
  raw_conversationId :: jsval
  raw_imageBase64 :: jsval
  raw_mimeType :: jsval

record input =
  message :: string
  conversationId :: "string option"
  imageBase64 :: "string option"
  mimeType :: "string option"

text \<open>A failed parse is reported by tRPC as \<^verbatim>\<open>BAD_REQUEST\<close> with the \<^verbatim>\<open>ZodError\<close> as
  cause; the text of the report is the library's and is not modelled.\<close>

definition bad_request :: trpc_error where
  "bad_request = \<lparr>code = BAD_REQUEST, error_message = ''Input validation failed'',
                   cause = Some ''ZodError''\<rparr>"

text \<open>\<^verbatim>\<open>z.string()\<close>: any string, the empty one too.\<close>

definition z_string :: "jsval \<Rightarrow> string option" where
  "z_string v = (case v of JString s \<Rightarrow> Some s | _ \<Rightarrow> None)"

text \<open>\<^verbatim>\<open>z.string().optional()\<close>: a string or \<^verbatim>\<open>undefined\<close>.\<close>

definition z_string_optional :: "jsval \<Rightarrow> string option option" where
  "z_string_optional v =
     (case v of JUndefined \<Rightarrow> Some None | JString s \<Rightarrow> Some (Some s) | _ \<Rightarrow> None)"

definition sendMessage_input :: "raw_input \<Rightarrow> trpc_error + input" where
  "sendMessage_input raw =
     (case z_string (raw_message raw) of
        None \<Rightarrow> Inl bad_request
      | Some m \<Rightarrow>
     (case z_string_optional (raw_conversationId raw) of
        None \<Rightarrow> Inl bad_request
      | Some c \<Rightarrow>
     (case z_string_optional (raw_imageBase64 raw) of
        None \<Rightarrow> Inl bad_request
      | Some i \<Rightarrow>
     (case z_string_optional (raw_mimeType raw) of
        None \<Rightarrow> Inl bad_request
      | Some t \<Rightarrow>
          Inr \<lparr>message = m, conversationId = c, imageBase64 = i, mimeType = t\<rparr>))))"

definition getMessages_input :: "jsval \<Rightarrow> trpc_error + string" where
  "getMessages_input raw =
     (case z_string raw of None \<Rightarrow> Inl bad_request | Some c \<Rightarrow> Inr c)"

subsection \<open>sendMessage\<close>

definition internal_error :: "string \<Rightarrow> js_error option \<Rightarrow> trpc_error" where
  "internal_error m c = \<lparr>code = INTERNAL_SERVER_ERROR, error_message = m, cause = c\<rparr>"

text \<open>Lines 36 to 53: the conversation the call works on. A \<^verbatim>\<open>conversationId\<close> that is
  absent or empty makes a new conversation, titled with the first 50 code units of the
  message. The cause of the error is what the \<^verbatim>\<open>catch\<close> caught when that is an
  \<^verbatim>\<open>Error\<close>: a rejected request, or the \<^verbatim>\<open>Error\<close> the handler makes for missing data.
  The \<^verbatim>\<open>error\<close> of a reply is a plain object, so its cause is
  \<^verbatim>\<open>new Error(String(error))\<close>, whose text is \<^verbatim>\<open>[object Object]\<close>.\<close>

definition create_conversation ::
  "env \<Rightarrow> string \<Rightarrow> string \<Rightarrow> db \<Rightarrow> (trpc_error + string) \<times> db \<times> event list" where
  "create_conversation e userId msg d =
     (let ttl = substring0 msg 50;
          (rep, d') = insert_conversation e (conv_insert_fault e) d userId ttl;
          failed = (\<lambda>x. Inl (internal_error ''Failed to create conversation'' (Some x)))
      in (case rep of
            Threw x \<Rightarrow> failed x
          | Reply (Some x) _ \<Rightarrow> failed ''[object Object]''
          | Reply None None \<Rightarrow>
              failed ''No conversation data returned from Supabase after creation''
          | Reply None (Some conversation) \<Rightarrow> Inr (conv_id conversation),
          d', [InsertConversation userId ttl]))"

definition resolve_conversation ::
  "env \<Rightarrow> string \<Rightarrow> input \<Rightarrow> db \<Rightarrow> (trpc_error + string) \<times> db \<times> event list" where
  "resolve_conversation e userId inp d =
     (case conversationId inp of
        None \<Rightarrow> create_conversation e userId (message inp) d
      | Some c \<Rightarrow>
          (if c = [] then create_conversation e userId (message inp) d
           else (Inr c, d, [])))"

text \<open>Lines 98 to 124: what is made of an ok response of the image endpoint, as
  \<^verbatim>\<open>(aiResponseContent, aiMessageType)\<close>.\<close>

definition isImagePart :: "part \<Rightarrow> bool" where
  "isImagePart p =
     (case inlineData p of
        None \<Rightarrow> False
      | Some d \<Rightarrow> startsWith (inline_mimeType d) ''image/'')"

definition first_parts :: "response_data \<Rightarrow> part list" where
  "first_parts responseData =
     (case responseData of
        [] \<Rightarrow> []
      | c # _ \<Rightarrow> (case c of None \<Rightarrow> [] | Some ps \<Rightarrow> ps))"

definition unable_text :: string where
  "unable_text = ''I was unable to generate an image. The prompt may have been rejected. Please try again with a different prompt.''"

definition read_image_response :: "response_data \<Rightarrow> string \<times> string" where
  "read_image_response responseData =
     (let imagePart = find isImagePart (first_parts responseData);
          found = (case imagePart of None \<Rightarrow> None | Some p \<Rightarrow> inlineData p)
      in case found of
           Some d \<Rightarrow>
             (''data:'' @ inline_mimeType d @ '';base64,'' @ inline_data d, ''image'')
         | None \<Rightarrow>
             (let textContent =
                    (case find (\<lambda>p. truthy (part_text p)) (first_parts responseData) of
                       None \<Rightarrow> None
                     | Some p \<Rightarrow> part_text p)
              in case textContent of
                   None \<Rightarrow> (unable_text, ''text'')
                 | Some t \<Rightarrow>
                     (if t \<noteq> [] \<and> 1000 < length t \<and> looksLikeBase64 (trim t)
                      then (''data:image/png;base64,'' @ trim t, ''image'')
                      else (if t \<noteq> [] then t else unable_text, ''text''))))"

text \<open>Lines 63 to 135, the \<^verbatim>\<open>/image\<close> branch: the inner \<^verbatim>\<open>try\<close> around the endpoint,
  and its \<^verbatim>\<open>catch\<close> with the one call of the text model. The result is
  \<^verbatim>\<open>(aiResponseContent, aiMessageType, userMessageType)\<close>, or what was thrown.\<close>

definition fallback_prompt :: "string \<Rightarrow> string" where
  "fallback_prompt prompt =
     ''I'm unable to generate an image right now. Here's a response to your prompt: ''
       @ prompt"

definition image_branch ::
  "env \<Rightarrow> string \<Rightarrow> (js_error + string \<times> string \<times> string) \<times> event list" where
  "image_branch e msg =
     (let prompt = trim (replaceImageToken msg);
          fallback =
            (let req = Prompt (fallback_prompt prompt)
             in (case generateContent e req of
                   Inl x \<Rightarrow> Inl x
                 | Inr t \<Rightarrow> Inr (t, ''text'', ''image_prompt''),
                 [ImageGeneration prompt, GenerateContent req]))
      in case fetch_image e prompt of
           FetchThrew x \<Rightarrow> fallback
         | NotOk status \<Rightarrow> fallback
         | Ok responseData \<Rightarrow>
             (case read_image_response responseData of
                (c, t) \<Rightarrow> (Inr (c, t, ''image_prompt''), [ImageGeneration prompt])))"

text \<open>Lines 137 to 149, the branch of an uploaded image.\<close>

definition image_query_branch ::
  "env \<Rightarrow> string \<Rightarrow> string \<Rightarrow> string
     \<Rightarrow> (js_error + string \<times> string \<times> string) \<times> event list" where
  "image_query_branch e msg b64 mime =
     (let req = PromptWithImage msg (InlineData mime b64)
      in (case generateContent e req of
            Inl x \<Rightarrow> Inl x
          | Inr t \<Rightarrow> Inr (t, ''text'', ''image_query''),
          [GenerateContent req]))"

text \<open>Lines 173 to 180, the loop over the history.\<close>

fun history_parts :: "message list \<Rightarrow> turn list" where
  "history_parts [] = []"
| "history_parts (msg # rest) =
     (if message_type msg = ''text''
      then Turn (if role msg = ''user'' then ''user'' else ''model'') (content msg)
             # history_parts rest
      else history_parts rest)"

text \<open>Lines 151 to 198, the branch of a plain message.\<close>

definition text_branch ::
  "env \<Rightarrow> string \<Rightarrow> string \<Rightarrow> string \<Rightarrow> db
     \<Rightarrow> (js_error + string \<times> string \<times> string) \<times> event list" where
  "text_branch e userId currentConversationId msg d =
     (let generate = (\<lambda>conversationHistory evs.
            (let req = Contents (history_parts conversationHistory @ [Turn ''user'' msg])
             in (case generateContent e req of
                   Inl x \<Rightarrow> Inl x
                 | Inr t \<Rightarrow> Inr (t, ''text'', ''text''),
                 evs @ [GenerateContent req])))
      in if currentConversationId \<noteq> []
         then (case select_messages (history_select_fault e) d currentConversationId userId
                      (Some 20) of
                 Threw x \<Rightarrow> (Inl x, [SelectHistory currentConversationId userId])
               | Reply None (Some rows) \<Rightarrow>
                   generate rows [SelectHistory currentConversationId userId]
               | Reply _ _ \<Rightarrow> generate [] [SelectHistory currentConversationId userId])
         else generate [] [])"

text \<open>Lines 59 to 202: the choice of the branch, and the outer \<^verbatim>\<open>catch\<close>.\<close>

definition isImageGenerationRequest :: "string \<Rightarrow> bool" where
  "isImageGenerationRequest msg = startsWith (toLowerCase (trim msg)) ''/image''"

definition hasUploadedImage :: "input \<Rightarrow> bool" where
  "hasUploadedImage inp = (truthy (imageBase64 inp) \<and> truthy (mimeType inp))"

definition generate_response ::
  "env \<Rightarrow> string \<Rightarrow> string \<Rightarrow> input \<Rightarrow> db
     \<Rightarrow> (trpc_error + string \<times> string \<times> string) \<times> event list" where
  "generate_response e userId currentConversationId inp d =
     (let (r, evs) =
            (if isImageGenerationRequest (message inp) then image_branch e (message inp)
             else if hasUploadedImage inp
             then image_query_branch e (message inp)
                    (case imageBase64 inp of Some b \<Rightarrow> b | None \<Rightarrow> [])
                    (case mimeType inp of Some t \<Rightarrow> t | None \<Rightarrow> [])
             else text_branch e userId currentConversationId (message inp) d)
      in (case r of
            Inl x \<Rightarrow> Inl (internal_error ''Failed to generate AI response'' (Some x))
          | Inr v \<Rightarrow> Inr v,
          evs))"

text \<open>What a successful call returns: \<^verbatim>\<open>{ aiMessage, conversationId }\<close>.\<close>

record send_result =
  aiMessage :: "message option"
  result_conversationId :: string

text \<open>Lines 204 to 228. The reply to the first insert is dropped; the reply to the
  second is read.\<close>

definition save_messages ::
  "env \<Rightarrow> string \<Rightarrow> string \<Rightarrow> string \<Rightarrow> string \<Rightarrow> string \<Rightarrow> string \<Rightarrow> db
     \<Rightarrow> (trpc_error + send_result) \<times> db \<times> event list" where
  "save_messages e userId currentConversationId msg aiResponseContent aiMessageType
       userMessageType d =
     (let failed = (\<lambda>x. Inl (internal_error ''Failed to save messages to the database.''
                                (Some x)));
          first = InsertMessage msg ''user'' userMessageType userId currentConversationId;
          second = InsertMessage aiResponseContent ''assistant'' aiMessageType userId
                     currentConversationId;
          (r1, d1) = insert_message e (user_insert_fault e) d msg ''user'' userMessageType
                       userId currentConversationId
      in case r1 of
           Threw x \<Rightarrow> (failed x, d1, [first])
         | Reply _ _ \<Rightarrow>
             (let (r2, d2) = insert_message e (ai_insert_fault e) d1 aiResponseContent
                               ''assistant'' aiMessageType userId currentConversationId
              in (case r2 of
                    Threw x \<Rightarrow> failed x
                  | Reply (Some x) _ \<Rightarrow> failed x
                  | Reply None row \<Rightarrow>
                      Inr \<lparr>aiMessage = row,
                           result_conversationId = currentConversationId\<rparr>,
                  d2, [first, second])))"

text \<open>The body of the mutation, lines 28 to 229.\<close>

definition sendMessage_mutation :: "env \<Rightarrow> ctx \<Rightarrow> input \<Rightarrow> db \<Rightarrow> send_result run" where
  "sendMessage_mutation e ctx inp d =
     (case session_sub ctx of
        None \<Rightarrow>
          \<lparr>outcome = Inl (unauthorized ''User not authenticated or missing user ID''),
           store = d, trace = []\<rparr>
      | Some userId \<Rightarrow>
          (case resolve_conversation e userId inp d of
             (Inl err, d1, t1) \<Rightarrow> \<lparr>outcome = Inl err, store = d1, trace = t1\<rparr>
           | (Inr currentConversationId, d1, t1) \<Rightarrow>
               (case generate_response e userId currentConversationId inp d1 of
                  (Inl err, t2) \<Rightarrow> \<lparr>outcome = Inl err, store = d1, trace = t1 @ t2\<rparr>
                | (Inr (aiResponseContent, aiMessageType, userMessageType), t2) \<Rightarrow>
                    (case save_messages e userId currentConversationId (message inp)
                            aiResponseContent aiMessageType userMessageType d1 of
                       (r, d2, t3) \<Rightarrow>
                         \<lparr>outcome = r, store = d2, trace = t1 @ t2 @ t3\<rparr>))))"

text \<open>\<^verbatim>\<open>protectedProcedure.input(...).mutation(...)\<close>: the middleware, then the parser,
  then the body.\<close>

definition sendMessage :: "env \<Rightarrow> ctx \<Rightarrow> raw_input \<Rightarrow> db \<Rightarrow> send_result run" where
  "sendMessage e ctx raw d =
     (case enforceUserIsAuthed ctx of
        Inl err \<Rightarrow> \<lparr>outcome = Inl err, store = d, trace = []\<rparr>
      | Inr ctx' \<Rightarrow>
          (case sendMessage_input raw of
             Inl err \<Rightarrow> \<lparr>outcome = Inl err, store = d, trace = []\<rparr>
           | Inr inp \<Rightarrow> sendMessage_mutation e ctx' inp d))"

subsection \<open>getConversations and getMessages\<close>

definition getConversations :: "env \<Rightarrow> ctx \<Rightarrow> db \<Rightarrow> conversation list run" where
  "getConversations e ctx d =
     (case enforceUserIsAuthed ctx of
        Inl err \<Rightarrow> \<lparr>outcome = Inl err, store = d, trace = []\<rparr>
      | Inr ctx' \<Rightarrow>
          (case session_sub ctx' of
             None \<Rightarrow>
               \<lparr>outcome = Inl (unauthorized ''User not authenticated or missing user ID''),
                store = d, trace = []\<rparr>
           | Some userId \<Rightarrow>
               \<lparr>outcome =
                  (case select_conversations (conversations_select_fault e) d userId of
                     Threw x \<Rightarrow> Inl (internal_error x (Some x))
                   | Reply (Some x) _ \<Rightarrow>
                       Inl (internal_error ''Could not fetch conversations.'' None)
                   | Reply None None \<Rightarrow> Inr []
                   | Reply None (Some rows) \<Rightarrow> Inr rows),
                store = d, trace = [SelectConversations userId]\<rparr>))"

definition getMessages :: "env \<Rightarrow> ctx \<Rightarrow> jsval \<Rightarrow> db \<Rightarrow> message list run" where
  "getMessages e ctx raw d =
     (case enforceUserIsAuthed ctx of
        Inl err \<Rightarrow> \<lparr>outcome = Inl err, store = d, trace = []\<rparr>
      | Inr ctx' \<Rightarrow>
          (case getMessages_input raw of
             Inl err \<Rightarrow> \<lparr>outcome = Inl err, store = d, trace = []\<rparr>
           | Inr cid \<Rightarrow>
               (case session_sub ctx' of
                  None \<Rightarrow>
                    \<lparr>outcome =
                       Inl (unauthorized ''User not authenticated or missing user ID''),
                     store = d, trace = []\<rparr>
                | Some userId \<Rightarrow>
                    \<lparr>outcome =
                       (case select_messages (messages_select_fault e) d cid userId None of
                          Threw x \<Rightarrow> Inl (internal_error x (Some x))
                        | Reply (Some x) _ \<Rightarrow>
                            Inl (internal_error ''Could not fetch messages.'' None)
                        | Reply None None \<Rightarrow> Inr []
                        | Reply None (Some rows) \<Rightarrow> Inr rows),
                     store = d, trace = [SelectMessages cid userId]\<rparr>)))"

subsection \<open>The history of a conversation\<close>

text \<open>The messages of a conversation that the caller owns, oldest first: what the
  specification calls the prior messages in chronological order.\<close>

definition prior_messages :: "db \<Rightarrow> string \<Rightarrow> string \<Rightarrow> message list" where
  "prior_messages d cid uid =
     sort_key created_at
       (filter (\<lambda>m. conversation_id m = cid \<and> user_id m = uid) (messages d))"

text \<open>The turn the specification makes of a stored message: role \<^verbatim>\<open>user\<close> stays
  \<^verbatim>\<open>user\<close>, role \<^verbatim>\<open>assistant\<close> becomes \<^verbatim>\<open>model\<close>.\<close>

definition dialogue_turn :: "message \<Rightarrow> turn" where
  "dialogue_turn m = Turn (if role m = ''assistant'' then ''model'' else ''user'') (content m)"

subsection \<open>Sample callers, stores and collaborators\<close>

text \<open>A signed-in caller, a caller without a session, a response of the image endpoint
  with one inline PNG, collaborators that never fail, an empty store, and a raw input
  with a message and perhaps a conversation.\<close>

definition alice :: ctx where
  "alice = \<lparr>session = Some \<lparr>user = Some \<lparr>sub = Some ''u1''\<rparr>\<rparr>\<rparr>"

definition anonymous :: ctx where
  "anonymous = \<lparr>session = None\<rparr>"

definition png_response :: response_data where
  "png_response = [Some [\<lparr>part_text = None,
                          inlineData = Some (InlineData ''image/png'' ''iVBORw0KGgo='')\<rparr>]]"

definition calm :: env where
  "calm = \<lparr>conv_insert_fault = NoFault, history_select_fault = NoFault,
            user_insert_fault = NoFault, ai_insert_fault = NoFault,
            conversations_select_fault = NoFault, messages_select_fault = NoFault,
            gen_random_uuid = (\<lambda>n. replicate (Suc n) (CHR ''i'')),
            fetch_image = (\<lambda>prompt. Ok png_response),
            generateContent = (\<lambda>req. Inr ''ok'')\<rparr>"

text \<open>An image endpoint that answers with status 500 beside a text model that answers;
  an image endpoint that is down beside a text model that throws.\<close>

definition failing_image :: env where
  "failing_image = calm\<lparr>fetch_image := (\<lambda>prompt. NotOk 500),
                         generateContent := (\<lambda>req. Inr ''sorry'')\<rparr>"

definition silent :: env where
  "silent = calm\<lparr>fetch_image := (\<lambda>prompt. FetchThrew ''down''),
                  generateContent := (\<lambda>req. Inl ''quota'')\<rparr>"

text \<open>An image endpoint that answers with 1001 letters of text and no inline data.\<close>

definition base64_response :: response_data where
  "base64_response = [Some [\<lparr>part_text = Some (replicate 1001 (CHR ''A'')),
                             inlineData = None\<rparr>]]"

definition texting :: env where
  "texting = calm\<lparr>fetch_image := (\<lambda>prompt. Ok base64_response)\<rparr>"

definition empty_db :: db where
  "empty_db = \<lparr>conversations = [], messages = [], seq = 0\<rparr>"

text \<open>A conversation \<^verbatim>\<open>c1\<close> of \<^verbatim>\<open>u1\<close> with two text turns and one image exchange.\<close>

definition small_db :: db where
  "small_db =
     \<lparr>conversations = [\<lparr>conv_id = ''c1'', title = ''What is 2+2?'', conv_user_id = ''u1'',
                         conv_created_at = 0\<rparr>],
      messages =
        [\<lparr>msg_id = ''m1'', content = ''What is 2+2?'', role = ''user'',
          message_type = ''text'', user_id = ''u1'', conversation_id = ''c1'',
          created_at = 1\<rparr>,
         \<lparr>msg_id = ''m2'', content = ''4'', role = ''assistant'',
          message_type = ''text'', user_id = ''u1'', conversation_id = ''c1'',
          created_at = 2\<rparr>,
         \<lparr>msg_id = ''m3'', content = ''/image cat'', role = ''user'',
          message_type = ''image_prompt'', user_id = ''u1'', conversation_id = ''c1'',
          created_at = 3\<rparr>,
         \<lparr>msg_id = ''m4'', content = ''data:image/png;base64,iVBORw0KGgo='',
          role = ''assistant'', message_type = ''image'', user_id = ''u1'',
          conversation_id = ''c1'', created_at = 4\<rparr>],
      seq = 5\<rparr>"

text \<open>A conversation \<^verbatim>\<open>c1\<close> of \<^verbatim>\<open>u1\<close> with 21 text messages, the \<open>i\<close>-th written at
  time \<open>i\<close> and made of \<open>i\<close> letters.\<close>

definition old_message :: "nat \<Rightarrow> message" where
  "old_message i = \<lparr>msg_id = replicate i (CHR ''m''), content = replicate i (CHR ''x''),
                    role = ''user'', message_type = ''text'', user_id = ''u1'',
                    conversation_id = ''c1'', created_at = i\<rparr>"

definition long_db :: db where
  "long_db = \<lparr>conversations = [\<lparr>conv_id = ''c1'', title = ''x'', conv_user_id = ''u1'',
                                 conv_created_at = 0\<rparr>],
               messages = map old_message [1..<22], seq = 22\<rparr>"

definition say :: "string \<Rightarrow> string option \<Rightarrow> raw_input" where
  "say m cid = \<lparr>raw_message = JString m,
               raw_conversationId = (case cid of None \<Rightarrow> JUndefined | Some c \<Rightarrow> JString c),
               raw_imageBase64 = JUndefined, raw_mimeType = JUndefined\<rparr>"

section \<open>Properties\<close>

subsection \<open>The shape of a call\<close>

lemma say_input:
  "sendMessage_input (say m cid) =
     Inr \<lparr>message = m, conversationId = cid, imageBase64 = None, mimeType = None\<rparr>"
  by (simp add: sendMessage_input_def say_def z_string_def z_string_optional_def
           split: option.splits)

lemma alice_sub: "session_sub alice = Some ''u1''"
  by (simp add: session_sub_def alice_def truthy_def)

lemma resolve_given:
  "c \<noteq> [] \<Longrightarrow> resolve_conversation e uid
     \<lparr>message = m, conversationId = Some c, imageBase64 = i, mimeType = t\<rparr> d = (Inr c, d, [])"
  by (simp add: resolve_conversation_def)

lemma session_sub_authed:
  "session_sub c = Some uid \<Longrightarrow> enforceUserIsAuthed c = Inr c"
  by (auto simp: session_sub_def enforceUserIsAuthed_def split: option.splits)

lemma sendMessage_authed:
  assumes "session_sub c = Some uid" and "sendMessage_input raw = Inr inp"
  shows "sendMessage e c raw d = sendMessage_mutation e c inp d"
  using assms by (simp add: sendMessage_def session_sub_authed)

lemma mutation_resolved:
  assumes "session_sub c = Some uid"
    and "resolve_conversation e uid inp d = (Inr cid, d1, t1)"
  shows "sendMessage_mutation e c inp d =
     (case generate_response e uid cid inp d1 of
        (Inl err, t2) \<Rightarrow> \<lparr>outcome = Inl err, store = d1, trace = t1 @ t2\<rparr>
      | (Inr (aiResponseContent, aiMessageType, userMessageType), t2) \<Rightarrow>
          (case save_messages e uid cid (message inp)
                  aiResponseContent aiMessageType userMessageType d1 of
             (r, d2, t3) \<Rightarrow> \<lparr>outcome = r, store = d2, trace = t1 @ t2 @ t3\<rparr>))"
  using assms by (simp add: sendMessage_mutation_def)

lemma mutation_unresolved:
  assumes "session_sub c = Some uid"
    and "resolve_conversation e uid inp d = (Inl err, d1, t1)"
  shows "sendMessage_mutation e c inp d = \<lparr>outcome = Inl err, store = d1, trace = t1\<rparr>"
  using assms by (simp add: sendMessage_mutation_def)

lemma create_conversation_cases:
  "create_conversation e uid msg d =
     (case conv_insert_fault e of
        NoFault \<Rightarrow>
          (Inr (gen_random_uuid e (seq d)),
           d\<lparr>conversations := conversations d @
                 [\<lparr>conv_id = gen_random_uuid e (seq d), title = take 50 msg,
                   conv_user_id = uid, conv_created_at = seq d\<rparr>],
              seq := Suc (seq d)\<rparr>,
           [InsertConversation uid (take 50 msg)])
      | ErrorReply x \<Rightarrow>
          (Inl (internal_error ''Failed to create conversation'' (Some ''[object Object]'')),
           d, [InsertConversation uid (take 50 msg)])
      | Throws x \<Rightarrow>
          (Inl (internal_error ''Failed to create conversation'' (Some x)), d,
           [InsertConversation uid (take 50 msg)]))"
  by (simp add: create_conversation_def insert_conversation_def substring0_def Let_def
           split: fault.splits)

lemma history_parts_eq:
  "history_parts ms =
     map (\<lambda>m. Turn (if role m = ''user'' then ''user'' else ''model'') (content m))
       (filter (\<lambda>m. message_type m = ''text'') ms)"
  by (induction ms) simp_all

subsection \<open>The steps of a call\<close>

lemma save_messages_trace:
  "snd (snd (save_messages e uid cid msg ac at ut d)) =
     (case user_insert_fault e of
        Throws x \<Rightarrow> [InsertMessage msg ''user'' ut uid cid]
      | _ \<Rightarrow> [InsertMessage msg ''user'' ut uid cid, InsertMessage ac ''assistant'' at uid cid])"
  by (simp add: save_messages_def insert_message_def Let_def split: fault.splits prod.splits reply.splits)

lemma save_messages_no_gateway:
  "filter isGatewayCall (snd (snd (save_messages e uid cid msg ac at ut d))) = []"
  by (simp add: save_messages_trace split: fault.splits)

lemma save_messages_success:
  assumes "save_messages e uid cid msg ac at ut d = (Inr res, d2, t3)"
  shows "\<exists>m. aiMessage res = Some m \<and> last (messages d2) = m \<and> role m = ''assistant''
             \<and> content m = ac \<and> message_type m = at \<and> user_id m = uid
             \<and> conversation_id m = cid"
    and "t3 = [InsertMessage msg ''user'' ut uid cid, InsertMessage ac ''assistant'' at uid cid]"
    and "result_conversationId res = cid"
  using assms
  by (auto simp: save_messages_def insert_message_def Let_def
           split: fault.splits prod.splits reply.splits option.splits)

lemma resolve_conversation_frame:
  assumes "resolve_conversation e uid inp d = (r, d1, t1)"
  shows "messages d1 = messages d \<and> filter isGatewayCall t1 = []"
  using assms
  by (auto simp: resolve_conversation_def create_conversation_cases
           split: option.splits if_splits fault.splits)

lemma gateway_calls_resolved:
  assumes "session_sub c = Some uid"
    and "sendMessage_input raw = Inr inp"
    and "resolve_conversation e uid inp d = (Inr cid, d1, t1)"
  shows "filter isGatewayCall (trace (sendMessage e c raw d)) =
           filter isGatewayCall (snd (generate_response e uid cid inp d1))"
proof -
  have t1: "filter isGatewayCall t1 = []"
    using resolve_conversation_frame [OF assms(3)] by simp
  obtain g t2 where g: "generate_response e uid cid inp d1 = (g, t2)"
    by (cases "generate_response e uid cid inp d1")
  show ?thesis
  proof (cases g)
    case (Inl err)
    then show ?thesis
      using mutation_resolved [OF assms(1,3)] g t1
      by (simp add: sendMessage_authed [OF assms(1,2)])
  next
    case (Inr v)
    obtain ac at ut where v: "v = (ac, at, ut)" by (cases v)
    obtain r d2 t3 where s: "save_messages e uid cid (message inp) ac at ut d1 = (r, d2, t3)"
      by (cases "save_messages e uid cid (message inp) ac at ut d1")
    have "filter isGatewayCall t3 = []"
      using save_messages_no_gateway [of e uid cid "message inp" ac at ut d1] s by simp
    then show ?thesis
      using mutation_resolved [OF assms(1,3)] g Inr v s t1
      by (simp add: sendMessage_authed [OF assms(1,2)])
  qed
qed

lemma image_branch_events:
  "filter isWrite (snd (image_branch e msg)) = []"
  by (simp add: image_branch_def Let_def split: fetch_result.splits prod.splits)

lemma text_branch_events:
  "filter isWrite (snd (text_branch e uid cid msg d)) = []"
  by (simp add: text_branch_def Let_def split: reply.splits option.splits)

lemma generate_response_events:
  "filter isWrite (snd (generate_response e uid cid inp d)) = []"
  using image_branch_events [of e "message inp"] text_branch_events [of e uid cid "message inp" d]
  by (auto simp: generate_response_def image_query_branch_def Let_def split: prod.splits)

lemma plain_branch:
  assumes "\<not> isImageGenerationRequest (message inp)" and "\<not> hasUploadedImage inp"
  shows "snd (generate_response e uid cid inp d) = snd (text_branch e uid cid (message inp) d)"
  using assms by (simp add: generate_response_def Let_def split: prod.splits)

lemma query_messages_all:
  assumes "length (prior_messages d cid uid) \<le> n"
  shows "query_messages d cid uid (Some n) = prior_messages d cid uid"
  using assms by (simp add: query_messages_def prior_messages_def)

lemma dialogue_turn_history:
  assumes "list_all (\<lambda>m. role m = ''user'' \<or> role m = ''assistant'') ms"
  shows "history_parts ms = map dialogue_turn (filter (\<lambda>m. message_type m = ''text'') ms)"
  using assms by (induction ms) (auto simp: dialogue_turn_def)

lemma base64_not_space: "isBase64Char c \<Longrightarrow> \<not> isWhiteSpace c"
  by (auto simp: isBase64Char_def isWhiteSpace_def Let_def)

lemma trim_no_space:
  assumes "list_all (\<lambda>c. \<not> isWhiteSpace c) t"
  shows "trim t = t"
proof (cases "t = []")
  case True
  then show ?thesis by (simp add: trim_def trimStart_def trimEnd_def)
next
  case False
  then have "\<not> isWhiteSpace (hd t)" and "\<not> isWhiteSpace (last t)"
    using assms by (simp_all add: list_all_iff)
  then have "dropWhile isWhiteSpace t = t" and "dropWhile isWhiteSpace (rev t) = rev t"
    using False by (simp_all add: dropWhile_eq_self_iff hd_rev)
  then show ?thesis by (simp add: trim_def trimStart_def trimEnd_def)
qed

lemma trim_base64:
  assumes "list_all isBase64Char t"
  shows "trim t = t"
  using assms base64_not_space by (intro trim_no_space) (auto simp: list_all_iff)

lemma read_inline_image:
  assumes "find isImagePart (first_parts rd) = Some p"
    and "inlineData p = Some (InlineData mime payload)"
  shows "read_image_response rd = (''data:'' @ mime @ '';base64,'' @ payload, ''image'')"
  using assms by (simp add: read_image_response_def)

lemma read_base64_text:
  assumes "find isImagePart (first_parts rd) = None"
    and "find (\<lambda>p. truthy (part_text p)) (first_parts rd) = Some p"
    and "part_text p = Some t"
    and "1000 < length t"
    and "list_all isBase64Char t"
  shows "read_image_response rd = (''data:image/png;base64,'' @ t, ''image'')"
proof -
  have "t \<noteq> []" using assms(4) by auto
  then show ?thesis
    using assms trim_base64 [OF assms(5)]
    by (simp add: read_image_response_def looksLikeBase64_def)
qed

lemma image_request_branch:
  assumes "isImageGenerationRequest (message inp)"
  shows "generate_response e uid cid inp d =
     (case image_branch e (message inp) of
        (Inl x, evs) \<Rightarrow> (Inl (internal_error ''Failed to generate AI response'' (Some x)), evs)
      | (Inr v, evs) \<Rightarrow> (Inr v, evs))"
  using assms by (simp add: generate_response_def Let_def split: prod.splits sum.splits)

lemma image_branch_ok:
  assumes "fetch_image e (trim (replaceImageToken msg)) = Ok rd"
  shows "image_branch e msg =
     (Inr (fst (read_image_response rd), snd (read_image_response rd), ''image_prompt''),
      [ImageGeneration (trim (replaceImageToken msg))])"
  using assms by (simp add: image_branch_def Let_def split: prod.splits)

lemma image_branch_failed:
  assumes "fetch_image e (trim (replaceImageToken msg)) = FetchThrew x
         \<or> fetch_image e (trim (replaceImageToken msg)) = NotOk st"
  shows "image_branch e msg =
     (case generateContent e (Prompt (fallback_prompt (trim (replaceImageToken msg)))) of
        Inl y \<Rightarrow> Inl y
      | Inr t \<Rightarrow> Inr (t, ''text'', ''image_prompt''),
      [ImageGeneration (trim (replaceImageToken msg)),
       GenerateContent (Prompt (fallback_prompt (trim (replaceImageToken msg))))])"
  using assms by (auto simp: image_branch_def Let_def)

subsection \<open>Callers without an identity\<close>

text \<open>
  Claim C4. A call whose context carries no caller identity (no session, no user, or no
  non-empty \<^verbatim>\<open>sub\<close>) and whose input has the declared shape fails with \<^verbatim>\<open>UNAUTHORIZED\<close>
  in each of \<^verbatim>\<open>sendMessage\<close>, \<^verbatim>\<open>getConversations\<close> and \<^verbatim>\<open>getMessages\<close>. Whatever the
  input, the store is returned as it was and no request at all is issued, so nothing is
  written.
\<close>

theorem no_identity_unauthenticated:
  assumes "session_sub c = None"
    and "sendMessage_input raw = Inr inp"
    and "getMessages_input rawc = Inr cid"
  shows "(\<exists>err. outcome (sendMessage e c raw d) = Inl err \<and> code err = UNAUTHORIZED)
       \<and> (\<exists>err. outcome (getConversations e c d) = Inl err \<and> code err = UNAUTHORIZED)
       \<and> (\<exists>err. outcome (getMessages e c rawc d) = Inl err \<and> code err = UNAUTHORIZED)
       \<and> store (sendMessage e c any d) = d \<and> trace (sendMessage e c any d) = []
       \<and> store (getConversations e c d) = d \<and> trace (getConversations e c d) = []
       \<and> store (getMessages e c anyc d) = d \<and> trace (getMessages e c anyc d) = []"
  using assms
  by (auto simp: sendMessage_def sendMessage_mutation_def getConversations_def
        getMessages_def enforceUserIsAuthed_def unauthorized_def
      split: option.splits sum.splits)

theorem no_identity_unauthenticated_witness:
  "session_sub anonymous = None
   \<and> sendMessage_input (say ''hi'' (Some ''c1'')) =
       Inr \<lparr>message = ''hi'', conversationId = Some ''c1'', imageBase64 = None,
            mimeType = None\<rparr>
   \<and> getMessages_input (JString ''c1'') = Inr ''c1''
   \<and> (\<exists>err. outcome (sendMessage calm anonymous (say ''hi'' (Some ''c1'')) small_db) = Inl err
             \<and> code err = UNAUTHORIZED)
   \<and> (\<exists>err. outcome (getConversations calm anonymous small_db) = Inl err
             \<and> code err = UNAUTHORIZED)
   \<and> (\<exists>err. outcome (getMessages calm anonymous (JString ''c1'') small_db) = Inl err
             \<and> code err = UNAUTHORIZED)
   \<and> store (sendMessage calm anonymous (say ''hi'' (Some ''c1'')) small_db) = small_db
   \<and> trace (sendMessage calm anonymous (say ''hi'' (Some ''c1'')) small_db) = []
   \<and> store (getConversations calm anonymous small_db) = small_db
   \<and> trace (getConversations calm anonymous small_db) = []
   \<and> store (getMessages calm anonymous (JString ''c1'') small_db) = small_db
   \<and> trace (getMessages calm anonymous (JString ''c1'') small_db) = []"
proof -
  have a: "session_sub anonymous = None"
    by (simp add: session_sub_def anonymous_def)
  have b: "getMessages_input (JString ''c1'') = Inr ''c1''"
    by (simp add: getMessages_input_def z_string_def)
  show ?thesis
    using a b say_input [of "''hi''" "Some ''c1''"]
      no_identity_unauthenticated [OF a say_input b,
        where e = calm and d = small_db and m1 = "''hi''" and cid1 = "Some ''c1''"
          and any = "say ''hi'' (Some ''c1'')" and anyc = "JString ''c1''"]
    by simp
qed

subsection \<open>A call without a conversation\<close>

text \<open>
  Claim C6. A call of a signed-in caller that names no conversation first asks the store
  for one new conversation, owned by the caller and titled with the first 50 code units of
  the message: that insert is the first request of the call and the only insert into
  \<^verbatim>\<open>conversations\<close>. Every message the call writes afterwards carries the caller and the
  identifier of the new conversation; a call that succeeds writes exactly the user's
  message and then the assistant's, and returns that identifier. When the store carries
  the insert out, the table of conversations grows by exactly that row; when it does not,
  the call fails and no message is written.
\<close>

theorem absent_conversation_created_first:
  assumes "session_sub c = Some uid"
    and "sendMessage_input raw = Inr inp"
    and "conversationId inp = None"
  shows "\<exists>rest.
      trace (sendMessage e c raw d) = InsertConversation uid (take 50 (message inp)) # rest
    \<and> filter isConversationInsert rest = []
    \<and> (\<forall>k r t u cid. InsertMessage k r t u cid \<in> set rest \<longrightarrow>
          u = uid \<and> cid = gen_random_uuid e (seq d))
    \<and> (\<forall>res. outcome (sendMessage e c raw d) = Inr res \<longrightarrow>
          result_conversationId res = gen_random_uuid e (seq d)
        \<and> (\<exists>k t k' t'. filter isWrite rest =
              [InsertMessage k ''user'' t uid (gen_random_uuid e (seq d)),
               InsertMessage k' ''assistant'' t' uid (gen_random_uuid e (seq d))]))
    \<and> (conv_insert_fault e = NoFault \<longrightarrow>
          conversations (store (sendMessage e c raw d)) =
            conversations d @
              [\<lparr>conv_id = gen_random_uuid e (seq d), title = take 50 (message inp),
                conv_user_id = uid, conv_created_at = seq d\<rparr>])
    \<and> (conv_insert_fault e \<noteq> NoFault \<longrightarrow>
          store (sendMessage e c raw d) = d \<and> rest = []
        \<and> (\<exists>err. outcome (sendMessage e c raw d) = Inl err))"
proof (cases "conv_insert_fault e = NoFault")
  case False
  then have "resolve_conversation e uid inp d =
      (Inl (internal_error ''Failed to create conversation''
             (Some (case conv_insert_fault e of
                      ErrorReply x \<Rightarrow> ''[object Object]'' | Throws x \<Rightarrow> x))),
       d, [InsertConversation uid (take 50 (message inp))])"
    using assms(3)
    by (simp add: resolve_conversation_def create_conversation_cases split: fault.splits)
  from mutation_unresolved [OF assms(1) this] False show ?thesis
    by (simp add: sendMessage_authed [OF assms(1,2)])
next
  case True
  define cid where "cid = gen_random_uuid e (seq d)"
  define d1 where "d1 = d\<lparr>conversations := conversations d @
                 [\<lparr>conv_id = gen_random_uuid e (seq d), title = take 50 (message inp),
                   conv_user_id = uid, conv_created_at = seq d\<rparr>],
              seq := Suc (seq d)\<rparr>"
  have res: "resolve_conversation e uid inp d =
      (Inr cid, d1, [InsertConversation uid (take 50 (message inp))])"
    using assms(3) True
    by (simp add: resolve_conversation_def create_conversation_cases cid_def d1_def)
  obtain g t2 where g: "generate_response e uid cid inp d1 = (g, t2)"
    by (cases "generate_response e uid cid inp d1")
  have t2: "filter isWrite t2 = []"
    using generate_response_events [of e uid cid inp d1] g by simp
  then have t2c: "filter isConversationInsert t2 = []"
    by (induction t2) (auto split: if_splits elim: isConversationInsert.elims)
  have t2m: "\<And>k r t u x. InsertMessage k r t u x \<notin> set t2"
    using t2 by (auto simp: filter_empty_conv)
  show ?thesis
  proof (cases g)
    case (Inl err)
    then show ?thesis
      using mutation_resolved [OF assms(1) res] g t2c t2m True
      by (simp add: sendMessage_authed [OF assms(1,2)] d1_def)
  next
    case (Inr v)
    obtain ac at ut where v: "v = (ac, at, ut)" by (cases v)
    obtain r d2 t3 where s: "save_messages e uid cid (message inp) ac at ut d1 = (r, d2, t3)"
      by (cases "save_messages e uid cid (message inp) ac at ut d1")
    have run: "sendMessage e c raw d =
        \<lparr>outcome = r, store = d2,
         trace = InsertConversation uid (take 50 (message inp)) # t2 @ t3\<rparr>"
      using mutation_resolved [OF assms(1) res] g Inr v s
      by (simp add: sendMessage_authed [OF assms(1,2)])
    have t3: "t3 = [InsertMessage (message inp) ''user'' ut uid cid] \<or>
              t3 = [InsertMessage (message inp) ''user'' ut uid cid,
                    InsertMessage ac ''assistant'' at uid cid]"
      using save_messages_trace [of e uid cid "message inp" ac at ut d1] s
      by (simp split: fault.splits)
    have ok: "\<And>res. r = Inr res \<Longrightarrow>
        t3 = [InsertMessage (message inp) ''user'' ut uid cid,
              InsertMessage ac ''assistant'' at uid cid] \<and> result_conversationId res = cid"
      using save_messages_success(2,3) [of e uid cid "message inp" ac at ut d1 _ d2 t3] s
      by simp
    have convs: "conversations d2 = conversations d1"
      using s by (auto simp: save_messages_def insert_message_def Let_def
                       split: fault.splits prod.splits reply.splits)
    show ?thesis
      unfolding run using t3 ok t2 t2c t2m True convs
      by (auto simp: cid_def d1_def)
  qed
qed

theorem absent_conversation_created_first_witness:
  "session_sub alice = Some ''u1''
   \<and> sendMessage_input (say ''hello'' None) =
       Inr \<lparr>message = ''hello'', conversationId = None, imageBase64 = None, mimeType = None\<rparr>
   \<and> (\<exists>rest. trace (sendMessage calm alice (say ''hello'' None) empty_db) =
                 InsertConversation ''u1'' ''hello'' # rest
             \<and> filter isConversationInsert rest = [])
   \<and> conversations (store (sendMessage calm alice (say ''hello'' None) empty_db)) =
       [\<lparr>conv_id = ''i'', title = ''hello'', conv_user_id = ''u1'', conv_created_at = 0\<rparr>]"
proof -
  have f: "conv_insert_fault calm = NoFault" "gen_random_uuid calm 0 = ''i''"
      "seq empty_db = 0" "conversations empty_db = []"
    by (simp_all add: calm_def empty_db_def)
  show ?thesis
    using alice_sub say_input [of "''hello''" None] f
      absent_conversation_created_first [OF alice_sub say_input,
        where e = calm and d = empty_db and m1 = "''hello''" and cid1 = None]
    by auto
qed

subsection \<open>The dialogue of a plain message\<close>

text \<open>
  Claim C3. A plain message (no \<^verbatim>\<open>/image\<close> prefix, no attachment) of a signed-in caller,
  on a conversation with at most 20 prior messages whose history the store returns: the
  only call to the model gateway is a text generation whose dialogue is the prior
  messages of kind \<^verbatim>\<open>text\<close>, oldest first, each as a turn with role \<^verbatim>\<open>user\<close> kept and role
  \<^verbatim>\<open>assistant\<close> turned into \<^verbatim>\<open>model\<close>, followed by the new message as a final \<^verbatim>\<open>user\<close>
  turn. The roles of stored messages are \<^verbatim>\<open>user\<close> or \<^verbatim>\<open>assistant\<close>, as the schema of
  \<^verbatim>\<open>messages\<close> checks.
\<close>

theorem plain_text_dialogue:
  assumes "session_sub c = Some uid"
    and "sendMessage_input raw = Inr inp"
    and "\<not> isImageGenerationRequest (message inp)"
    and "\<not> hasUploadedImage inp"
    and "resolve_conversation e uid inp d = (Inr cid, d1, t1)"
    and "cid \<noteq> []"
    and "history_select_fault e = NoFault"
    and "length (prior_messages d cid uid) \<le> 20"
    and "list_all (\<lambda>m. role m = ''user'' \<or> role m = ''assistant'') (messages d)"
  shows "filter isGatewayCall (trace (sendMessage e c raw d)) =
           [GenerateContent (Contents
              (map dialogue_turn
                 (filter (\<lambda>m. message_type m = ''text'') (prior_messages d cid uid))
               @ [Turn ''user'' (message inp)]))]"
proof -
  have m: "messages d1 = messages d"
    using resolve_conversation_frame [OF assms(5)] by simp
  then have p: "prior_messages d1 cid uid = prior_messages d cid uid"
    by (simp add: prior_messages_def)
  have q: "query_messages d1 cid uid (Some 20) = prior_messages d cid uid"
    using query_messages_all [of d1 cid uid 20] assms(8) p by simp
  have roles: "list_all (\<lambda>m. role m = ''user'' \<or> role m = ''assistant'')
                 (prior_messages d cid uid)"
    using assms(9) by (auto simp: prior_messages_def list_all_iff)
  have "snd (text_branch e uid cid (message inp) d1) =
          [SelectHistory cid uid,
           GenerateContent (Contents (history_parts (prior_messages d cid uid)
                                        @ [Turn ''user'' (message inp)]))]"
    using assms(6,7) q by (simp add: text_branch_def select_messages_def Let_def)
  then show ?thesis
    using gateway_calls_resolved [OF assms(1,2,5)] plain_branch [OF assms(3,4)]
      dialogue_turn_history [OF roles]
    by simp
qed

theorem plain_text_dialogue_witness:
  "session_sub alice = Some ''u1''
   \<and> \<not> isImageGenerationRequest ''hi''
   \<and> length (prior_messages small_db ''c1'' ''u1'') = 4
   \<and> filter isGatewayCall (trace (sendMessage calm alice (say ''hi'' (Some ''c1'')) small_db)) =
       [GenerateContent (Contents [Turn ''user'' ''What is 2+2?'', Turn ''model'' ''4'',
                                   Turn ''user'' ''hi''])]"
proof -
  have a: "\<not> isImageGenerationRequest
             (message \<lparr>message = ''hi'', conversationId = Some ''c1'', imageBase64 = None,
                       mimeType = None\<rparr>)"
    by code_simp
  have b: "\<not> hasUploadedImage
             \<lparr>message = ''hi'', conversationId = Some ''c1'', imageBase64 = None,
              mimeType = None\<rparr>"
    by (simp add: hasUploadedImage_def truthy_def)
  have r: "resolve_conversation calm ''u1''
             \<lparr>message = ''hi'', conversationId = Some ''c1'', imageBase64 = None,
              mimeType = None\<rparr> small_db = (Inr ''c1'', small_db, [])"
    by (simp add: resolve_given)
  have n: "''c1'' \<noteq> []" by simp
  have h: "history_select_fault calm = NoFault" by (simp add: calm_def)
  have p: "prior_messages small_db ''c1'' ''u1'' = messages small_db"
    by (simp add: prior_messages_def small_db_def)
  have l: "length (prior_messages small_db ''c1'' ''u1'') \<le> 20"
    by (simp add: p) (simp add: small_db_def)
  have s: "list_all (\<lambda>m. role m = ''user'' \<or> role m = ''assistant'') (messages small_db)"
    by (simp add: small_db_def)
  show ?thesis
    using alice_sub a plain_text_dialogue [OF alice_sub say_input a b r n h l s]
    by (simp add: p) (simp add: small_db_def dialogue_turn_def)
qed

text \<open>
  Claim C10. A plain message of a signed-in caller whose read of the history is answered
  with an error: the error is dropped, the only call to the model gateway is a text
  generation whose dialogue is the new message alone as one \<^verbatim>\<open>user\<close> turn, and with the
  model answering and both inserts carried out the call succeeds.
\<close>

theorem history_error_swallowed:
  assumes "session_sub c = Some uid"
    and "sendMessage_input raw = Inr inp"
    and "\<not> isImageGenerationRequest (message inp)"
    and "\<not> hasUploadedImage inp"
    and "resolve_conversation e uid inp d = (Inr cid, d1, t1)"
    and "cid \<noteq> []"
    and "history_select_fault e = ErrorReply x"
    and "generateContent e (Contents [Turn ''user'' (message inp)]) = Inr answer"
    and "user_insert_fault e = NoFault"
    and "ai_insert_fault e = NoFault"
  shows "filter isGatewayCall (trace (sendMessage e c raw d)) =
           [GenerateContent (Contents [Turn ''user'' (message inp)])]
       \<and> (\<exists>res. outcome (sendMessage e c raw d) = Inr res)"
proof -
  have tb: "text_branch e uid cid (message inp) d1 =
          (Inr (answer, ''text'', ''text''),
           [SelectHistory cid uid, GenerateContent (Contents [Turn ''user'' (message inp)])])"
    using assms(6,7,8) by (simp add: text_branch_def select_messages_def Let_def)
  then have g: "generate_response e uid cid inp d1 =
          (Inr (answer, ''text'', ''text''),
           [SelectHistory cid uid, GenerateContent (Contents [Turn ''user'' (message inp)])])"
    using assms(3,4) by (simp add: generate_response_def Let_def)
  have "\<exists>res. fst (save_messages e uid cid (message inp) answer ''text'' ''text'' d1) = Inr res"
    using assms(9,10) by (simp add: save_messages_def insert_message_def Let_def)
  then have "\<exists>res. outcome (sendMessage e c raw d) = Inr res"
    using mutation_resolved [OF assms(1,5)] g
    by (auto simp: sendMessage_authed [OF assms(1,2)] split: prod.splits)
  then show ?thesis
    using gateway_calls_resolved [OF assms(1,2,5)] g by simp
qed

theorem history_error_swallowed_witness:
  "history_select_fault (calm\<lparr>history_select_fault := ErrorReply ''timeout''\<rparr>) =
     ErrorReply ''timeout''
   \<and> filter isGatewayCall
       (trace (sendMessage (calm\<lparr>history_select_fault := ErrorReply ''timeout''\<rparr>) alice
                 (say ''hi'' (Some ''c1'')) small_db)) =
       [GenerateContent (Contents [Turn ''user'' ''hi''])]
   \<and> (\<exists>res. outcome (sendMessage (calm\<lparr>history_select_fault := ErrorReply ''timeout''\<rparr>) alice
                       (say ''hi'' (Some ''c1'')) small_db) = Inr res)"
proof -
  let ?e = "calm\<lparr>history_select_fault := ErrorReply ''timeout''\<rparr>"
  let ?i = "\<lparr>message = ''hi'', conversationId = Some ''c1'', imageBase64 = None,
             mimeType = None\<rparr>"
  have a: "\<not> isImageGenerationRequest (message ?i)"
    by code_simp
  have b: "\<not> hasUploadedImage ?i"
    by (simp add: hasUploadedImage_def truthy_def)
  have r: "resolve_conversation ?e ''u1'' ?i small_db = (Inr ''c1'', small_db, [])"
    by (simp add: resolve_given)
  have n: "''c1'' \<noteq> []" by simp
  have h: "history_select_fault ?e = ErrorReply ''timeout''" by simp
  have g: "generateContent ?e (Contents [Turn ''user'' (message ?i)]) = Inr ''ok''"
    by (simp add: calm_def)
  have u: "user_insert_fault ?e = NoFault" "ai_insert_fault ?e = NoFault"
    by (simp_all add: calm_def)
  show ?thesis
    using history_error_swallowed [OF alice_sub say_input a b r n h g u]
    by simp
qed

subsection \<open>The image command\<close>

text \<open>
  Claim C7. A successful \<^verbatim>\<open>/image\<close> call whose endpoint answered ok. When the first
  candidate holds a part with inline data of an image type, with mime type \<open>mime\<close> and
  data \<open>payload\<close>, the assistant's message that is returned, and stored last, has the
  content \<^verbatim>\<open>data:mime;base64,payload\<close> and the kind \<^verbatim>\<open>image\<close>. When there is no such
  part and the first part with text holds more than 1000 code units, all of the base64
  alphabet, the message has that text behind \<^verbatim>\<open>data:image/png;base64,\<close> as content and
  the kind \<^verbatim>\<open>image\<close>.
\<close>

theorem image_payload_persisted:
  assumes "session_sub c = Some uid"
    and "sendMessage_input raw = Inr inp"
    and "isImageGenerationRequest (message inp)"
    and "resolve_conversation e uid inp d = (Inr cid, d1, t1)"
    and "fetch_image e (trim (replaceImageToken (message inp))) = Ok responseData"
    and "outcome (sendMessage e c raw d) = Inr res"
  shows "(\<forall>p mime payload.
            find isImagePart (first_parts responseData) = Some p
          \<and> inlineData p = Some (InlineData mime payload) \<longrightarrow>
            (\<exists>m. aiMessage res = Some m
                \<and> last (messages (store (sendMessage e c raw d))) = m
                \<and> role m = ''assistant''
                \<and> content m = ''data:'' @ mime @ '';base64,'' @ payload
                \<and> message_type m = ''image''))
       \<and> (\<forall>p t.
            find isImagePart (first_parts responseData) = None
          \<and> find (\<lambda>p. truthy (part_text p)) (first_parts responseData) = Some p
          \<and> part_text p = Some t \<and> 1000 < length t \<and> list_all isBase64Char t \<longrightarrow>
            (\<exists>m. aiMessage res = Some m
                \<and> last (messages (store (sendMessage e c raw d))) = m
                \<and> role m = ''assistant''
                \<and> content m = ''data:image/png;base64,'' @ t
                \<and> message_type m = ''image''))"
proof -
  define ac where "ac = fst (read_image_response responseData)"
  define at where "at = snd (read_image_response responseData)"
  have g: "generate_response e uid cid inp d1 =
      (Inr (ac, at, ''image_prompt''),
       [ImageGeneration (trim (replaceImageToken (message inp)))])"
    using image_request_branch [OF assms(3)] image_branch_ok [OF assms(5)]
    by (simp add: ac_def at_def)
  obtain r d2 t3 where
    s: "save_messages e uid cid (message inp) ac at ''image_prompt'' d1 = (r, d2, t3)"
    by (cases "save_messages e uid cid (message inp) ac at ''image_prompt'' d1")
  have run: "sendMessage e c raw d = \<lparr>outcome = r, store = d2,
      trace = t1 @ [ImageGeneration (trim (replaceImageToken (message inp)))] @ t3\<rparr>"
    using mutation_resolved [OF assms(1,4)] g s
    by (simp add: sendMessage_authed [OF assms(1,2)])
  then have "r = Inr res" using assms(6) by simp
  then obtain m where m: "aiMessage res = Some m" "last (messages d2) = m"
      "role m = ''assistant''" "content m = ac" "message_type m = at"
    using save_messages_success(1) [of e uid cid "message inp" ac at "''image_prompt''" d1 res d2 t3] s
    by auto
  show ?thesis
    using m run read_inline_image [of responseData] read_base64_text [of responseData]
    by (auto simp: ac_def at_def)
qed

theorem image_payload_persisted_witness:
  "isImageGenerationRequest ''/image cat''
   \<and> fetch_image calm (trim (replaceImageToken ''/image cat'')) = Ok png_response
   \<and> content (last (messages (store (sendMessage calm alice (say ''/image cat'' (Some ''c1''))
                                        empty_db)))) = ''data:image/png;base64,iVBORw0KGgo=''
   \<and> message_type (last (messages (store (sendMessage calm alice
                                               (say ''/image cat'' (Some ''c1'')) empty_db)))) =
       ''image''
   \<and> fetch_image texting (trim (replaceImageToken ''/image cat'')) = Ok base64_response
   \<and> content (last (messages (store (sendMessage texting alice
                                          (say ''/image cat'' (Some ''c1'')) empty_db)))) =
       ''data:image/png;base64,'' @ replicate 1001 (CHR ''A'')
   \<and> message_type (last (messages (store (sendMessage texting alice
                                               (say ''/image cat'' (Some ''c1'')) empty_db)))) =
       ''image''"
proof -
  let ?i = "\<lparr>message = ''/image cat'', conversationId = Some ''c1'', imageBase64 = None,
             mimeType = None\<rparr>"
  let ?p = "\<lparr>part_text = None, inlineData = Some (InlineData ''image/png'' ''iVBORw0KGgo='')\<rparr>"
  let ?q = "\<lparr>part_text = Some (replicate 1001 (CHR ''A'')), inlineData = None\<rparr>"
  have a: "isImageGenerationRequest (message ?i)"
    by code_simp
  have r: "resolve_conversation e ''u1'' ?i empty_db = (Inr ''c1'', empty_db, [])" for e
    by (simp add: resolve_given)
  have f1: "fetch_image calm (trim (replaceImageToken (message ?i))) = Ok png_response"
    by (simp add: calm_def)
  have f2: "fetch_image texting (trim (replaceImageToken (message ?i))) = Ok base64_response"
    by (simp add: texting_def calm_def)
  have o1: "outcome (sendMessage calm alice (say ''/image cat'' (Some ''c1'')) empty_db) =
      Inr \<lparr>aiMessage = Some \<lparr>msg_id = ''ii'', content = ''data:image/png;base64,iVBORw0KGgo='',
              role = ''assistant'', message_type = ''image'', user_id = ''u1'',
              conversation_id = ''c1'', created_at = 1\<rparr>,
           result_conversationId = ''c1''\<rparr>"
    by code_simp
  have o2: "outcome (sendMessage texting alice (say ''/image cat'' (Some ''c1'')) empty_db) =
      Inr \<lparr>aiMessage = Some \<lparr>msg_id = ''ii'',
              content = ''data:image/png;base64,'' @ replicate 1001 (CHR ''A''),
              role = ''assistant'', message_type = ''image'', user_id = ''u1'',
              conversation_id = ''c1'', created_at = 1\<rparr>,
           result_conversationId = ''c1''\<rparr>"
    by code_simp
  have p1: "find isImagePart (first_parts png_response) = Some ?p
          \<and> inlineData ?p = Some (InlineData ''image/png'' ''iVBORw0KGgo='')"
    by (simp add: png_response_def first_parts_def isImagePart_def startsWith_def)
  have p2: "find isImagePart (first_parts base64_response) = None
          \<and> find (\<lambda>p. truthy (part_text p)) (first_parts base64_response) = Some ?q
          \<and> part_text ?q = Some (replicate 1001 (CHR ''A''))
          \<and> 1000 < length (replicate 1001 (CHR ''A''))
          \<and> list_all isBase64Char (replicate 1001 (CHR ''A''))"
    by (simp add: base64_response_def first_parts_def isImagePart_def truthy_def
          list_all_iff isBase64Char_def)
  note t1 = image_payload_persisted [OF alice_sub say_input a r f1 o1]
  note t2 = image_payload_persisted [OF alice_sub say_input a r f2 o2]
  from t1 p1 have
    "\<exists>m. last (messages (store (sendMessage calm alice (say ''/image cat'' (Some ''c1''))
                                  empty_db))) = m
       \<and> content m = ''data:'' @ ''image/png'' @ '';base64,'' @ ''iVBORw0KGgo=''
       \<and> message_type m = ''image''"
    by blast
  moreover from t2 p2 have
    "\<exists>m. last (messages (store (sendMessage texting alice (say ''/image cat'' (Some ''c1''))
                                  empty_db))) = m
       \<and> content m = ''data:image/png;base64,'' @ replicate 1001 (CHR ''A'')
       \<and> message_type m = ''image''"
    by blast
  ultimately show ?thesis
    using a f1 f2 by simp
qed

text \<open>
  Claim C8. An \<^verbatim>\<open>/image\<close> call whose endpoint throws or answers with a status that is not
  ok: the gateway sees exactly two calls, the image generation and then one text
  generation whose prompt is the sentence \<^verbatim>\<open>I'm unable to generate an image right now.
  Here's a response to your prompt: \<close> followed by the failed prompt. When that second call throws, the
  call fails with \<^verbatim>\<open>Failed to generate AI response\<close> and its cause, and writes no message.
  When it answers, the call can only fail in saving, the user's message is written with
  kind \<^verbatim>\<open>image_prompt\<close>, the only assistant message written has the answer as content and
  the kind \<^verbatim>\<open>text\<close>, and a call that succeeds returns and stores that message.
\<close>

theorem image_failure_fallback:
  assumes "session_sub c = Some uid"
    and "sendMessage_input raw = Inr inp"
    and "isImageGenerationRequest (message inp)"
    and "resolve_conversation e uid inp d = (Inr cid, d1, t1)"
    and "prompt = trim (replaceImageToken (message inp))"
    and "fetch_image e prompt = FetchThrew x \<or> fetch_image e prompt = NotOk st"
    and "request =
           Prompt (''I'm unable to generate an image right now. Here's a response to your prompt: ''
                     @ prompt)"
  shows "filter isGatewayCall (trace (sendMessage e c raw d)) =
           [ImageGeneration prompt, GenerateContent request]
       \<and> (\<forall>y. generateContent e request = Inl y \<longrightarrow>
             outcome (sendMessage e c raw d) =
               Inl (internal_error ''Failed to generate AI response'' (Some y))
           \<and> filter isWrite (trace (sendMessage e c raw d)) = filter isWrite t1)
       \<and> (\<forall>t. generateContent e request = Inr t \<longrightarrow>
             (\<forall>err. outcome (sendMessage e c raw d) = Inl err \<longrightarrow>
                error_message err = ''Failed to save messages to the database.'')
           \<and> (\<exists>rest. trace (sendMessage e c raw d) =
                 t1 @ [ImageGeneration prompt, GenerateContent request,
                       InsertMessage (message inp) ''user'' ''image_prompt'' uid cid] @ rest
               \<and> (rest = [] \<or> rest = [InsertMessage t ''assistant'' ''text'' uid cid]))
           \<and> (\<forall>res. outcome (sendMessage e c raw d) = Inr res \<longrightarrow>
                (\<exists>m. aiMessage res = Some m
                    \<and> last (messages (store (sendMessage e c raw d))) = m
                    \<and> role m = ''assistant'' \<and> content m = t \<and> message_type m = ''text'')))"
proof -
  define req where "req = Prompt (fallback_prompt prompt)"
  have rq: "request = req"
    using assms(7) by (simp add: req_def fallback_prompt_def)
  have ib: "image_branch e (message inp) =
     (case generateContent e req of
        Inl y \<Rightarrow> Inl y
      | Inr t \<Rightarrow> Inr (t, ''text'', ''image_prompt''),
      [ImageGeneration prompt, GenerateContent req])"
    using image_branch_failed [of e "message inp" x st] assms(5,6) by (simp add: req_def)
  have calls: "filter isGatewayCall (trace (sendMessage e c raw d)) =
      [ImageGeneration prompt, GenerateContent req]"
    using gateway_calls_resolved [OF assms(1,2,4)] image_request_branch [OF assms(3), of e uid cid d1] ib
    by (simp split: sum.splits)
  have failed: "outcome (sendMessage e c raw d) =
               Inl (internal_error ''Failed to generate AI response'' (Some y))
           \<and> filter isWrite (trace (sendMessage e c raw d)) = filter isWrite t1"
    if "generateContent e req = Inl y" for y
    using mutation_resolved [OF assms(1,4)] image_request_branch [OF assms(3), of e uid cid d1] ib that
    by (simp add: sendMessage_authed [OF assms(1,2)])
  have answered: "(\<forall>err. outcome (sendMessage e c raw d) = Inl err \<longrightarrow>
                error_message err = ''Failed to save messages to the database.'')
           \<and> (\<exists>rest. trace (sendMessage e c raw d) =
                 t1 @ [ImageGeneration prompt, GenerateContent req,
                       InsertMessage (message inp) ''user'' ''image_prompt'' uid cid] @ rest
               \<and> (rest = [] \<or> rest = [InsertMessage t ''assistant'' ''text'' uid cid]))
           \<and> (\<forall>res. outcome (sendMessage e c raw d) = Inr res \<longrightarrow>
                (\<exists>m. aiMessage res = Some m
                    \<and> last (messages (store (sendMessage e c raw d))) = m
                    \<and> role m = ''assistant'' \<and> content m = t \<and> message_type m = ''text''))"
    if t: "generateContent e req = Inr t" for t
  proof -
    have g: "generate_response e uid cid inp d1 =
        (Inr (t, ''text'', ''image_prompt''), [ImageGeneration prompt, GenerateContent req])"
      using image_request_branch [OF assms(3), of e uid cid d1] ib t by simp
    obtain r d2 t3 where
      s: "save_messages e uid cid (message inp) t ''text'' ''image_prompt'' d1 = (r, d2, t3)"
      by (cases "save_messages e uid cid (message inp) t ''text'' ''image_prompt'' d1")
    have run: "sendMessage e c raw d = \<lparr>outcome = r, store = d2,
        trace = t1 @ [ImageGeneration prompt, GenerateContent req] @ t3\<rparr>"
      using mutation_resolved [OF assms(1,4)] g s
      by (simp add: sendMessage_authed [OF assms(1,2)])
    have t3: "t3 = [InsertMessage (message inp) ''user'' ''image_prompt'' uid cid] \<or>
              t3 = [InsertMessage (message inp) ''user'' ''image_prompt'' uid cid,
                    InsertMessage t ''assistant'' ''text'' uid cid]"
      using save_messages_trace [of e uid cid "message inp" t "''text''" "''image_prompt''" d1] s
      by (simp split: fault.splits)
    have err: "error_message err = ''Failed to save messages to the database.''"
      if "r = Inl err" for err
      using s that
      by (auto simp: save_messages_def insert_message_def internal_error_def Let_def
               split: fault.splits prod.splits reply.splits option.splits)
    have ok: "\<exists>m. aiMessage res = Some m \<and> last (messages d2) = m
                    \<and> role m = ''assistant'' \<and> content m = t \<and> message_type m = ''text''"
      if "r = Inr res" for res
      using save_messages_success(1) [of e uid cid "message inp" t "''text''" "''image_prompt''" d1 res d2 t3]
        s that by auto
    show ?thesis
      unfolding run using t3 err ok by auto
  qed
  show ?thesis
    using calls failed answered unfolding rq by blast
qed

theorem image_failure_fallback_witness:
  "fetch_image failing_image ''cat'' = NotOk 500
   \<and> filter isGatewayCall
       (trace (sendMessage failing_image alice (say ''/image cat'' (Some ''c1'')) empty_db)) =
       [ImageGeneration ''cat'', GenerateContent
          (Prompt ''I'm unable to generate an image right now. Here's a response to your prompt: cat'')]
   \<and> content (last (messages (store (sendMessage failing_image alice
                                          (say ''/image cat'' (Some ''c1'')) empty_db)))) =
       ''sorry''
   \<and> message_type (last (messages (store (sendMessage failing_image alice
                                          (say ''/image cat'' (Some ''c1'')) empty_db)))) =
       ''text''
   \<and> fetch_image silent ''cat'' = FetchThrew ''down''
   \<and> outcome (sendMessage silent alice (say ''/image cat'' (Some ''c1'')) empty_db) =
       Inl (internal_error ''Failed to generate AI response'' (Some ''quota''))
   \<and> filter isWrite
       (trace (sendMessage silent alice (say ''/image cat'' (Some ''c1'')) empty_db)) = []"
proof -
  let ?i = "\<lparr>message = ''/image cat'', conversationId = Some ''c1'', imageBase64 = None,
             mimeType = None\<rparr>"
  have a: "isImageGenerationRequest (message ?i)"
    by code_simp
  have p: "''cat'' = trim (replaceImageToken (message ?i))"
    by code_simp
  have r: "resolve_conversation e ''u1'' ?i empty_db = (Inr ''c1'', empty_db, [])" for e
    by (simp add: resolve_given)
  have f1: "fetch_image failing_image ''cat'' = FetchThrew x
          \<or> fetch_image failing_image ''cat'' = NotOk 500" for x
    by (simp add: failing_image_def)
  have f2: "fetch_image silent ''cat'' = FetchThrew ''down''
          \<or> fetch_image silent ''cat'' = NotOk st" for st
    by (simp add: silent_def)
  have q: "Prompt ''I'm unable to generate an image right now. Here's a response to your prompt: cat'' =
      Prompt (''I'm unable to generate an image right now. Here's a response to your prompt: ''
                @ ''cat'')"
    by simp
  have g1: "generateContent failing_image (Prompt ''I'm unable to generate an image right now. Here's a response to your prompt: cat'') = Inr ''sorry''"
    by (simp add: failing_image_def)
  have g2: "generateContent silent (Prompt ''I'm unable to generate an image right now. Here's a response to your prompt: cat'') = Inl ''quota''"
    by (simp add: silent_def)
  have "outcome (sendMessage failing_image alice (say ''/image cat'' (Some ''c1'')) empty_db) =
      Inr \<lparr>aiMessage = Some \<lparr>msg_id = ''ii'', content = ''sorry'',
              role = ''assistant'', message_type = ''text'', user_id = ''u1'',
              conversation_id = ''c1'', created_at = 1\<rparr>,
           result_conversationId = ''c1''\<rparr>"
    by code_simp
  then have o1: "\<exists>res. outcome (sendMessage failing_image alice
                             (say ''/image cat'' (Some ''c1'')) empty_db) = Inr res"
    by simp
  note t1 = image_failure_fallback [OF alice_sub say_input a r p f1 q]
  note t2 = image_failure_fallback [OF alice_sub say_input a r p f2 q]
  from t1 g1 o1 have
    "filter isGatewayCall
       (trace (sendMessage failing_image alice (say ''/image cat'' (Some ''c1'')) empty_db)) =
       [ImageGeneration ''cat'', GenerateContent
          (Prompt ''I'm unable to generate an image right now. Here's a response to your prompt: cat'')]
     \<and> (\<exists>m. last (messages (store (sendMessage failing_image alice
                                      (say ''/image cat'' (Some ''c1'')) empty_db))) = m
          \<and> content m = ''sorry'' \<and> message_type m = ''text'')"
    by blast
  moreover from t2 g2 have
    "outcome (sendMessage silent alice (say ''/image cat'' (Some ''c1'')) empty_db) =
       Inl (internal_error ''Failed to generate AI response'' (Some ''quota''))
     \<and> filter isWrite
         (trace (sendMessage silent alice (say ''/image cat'' (Some ''c1'')) empty_db)) = []"
    by simp
  ultimately show ?thesis
    by (simp add: failing_image_def silent_def)
qed

subsection \<open>Where the handler departs from its description\<close>

text \<open>
  Claim C1. The claim asks for the 20 most recent text messages of a longer conversation.
  The handler orders the rows by ascending \<^verbatim>\<open>created_at\<close> and cuts after the first 20,
  under the comment \<^verbatim>\<open>Limit to last 20 messages to avoid token limits\<close>. On a
  conversation of 21 text messages the dialogue sent to the model holds the messages 1
  to 20 and the new message; message 21, the most recent one, is not in it.
\<close>

theorem history_limit_keeps_oldest:
  "length (prior_messages long_db ''c1'' ''u1'') = 21
   \<and> filter isGatewayCall
       (trace (sendMessage calm alice (say ''hi'' (Some ''c1'')) long_db)) =
       [GenerateContent (Contents (map (\<lambda>i. dialogue_turn (old_message i)) [1..<21]
                                    @ [Turn ''user'' ''hi'']))]
   \<and> dialogue_turn (old_message 21) \<notin>
       set (map (\<lambda>i. dialogue_turn (old_message i)) [1..<21] @ [Turn ''user'' ''hi''])"
  by code_simp

text \<open>
  Claim C2. The claim asks that the prompt of an \<^verbatim>\<open>/image\<close> message with leading white
  space is the message without the token. The handler trims the message before it looks
  for the token, but removes the token with a pattern anchored at the first code unit of
  the untrimmed message. For the message \<^verbatim>\<open> /image cat\<close> the request is taken as an image
  request and the user's message is written with kind \<^verbatim>\<open>image_prompt\<close>, yet the prompt
  sent to the image endpoint is \<^verbatim>\<open>/image cat\<close>, the token still in it.
\<close>

theorem leading_space_keeps_image_token:
  "isImageGenerationRequest '' /image cat''
   \<and> trace (sendMessage calm alice (say '' /image cat'' (Some ''c1'')) empty_db) =
       [ImageGeneration ''/image cat'',
        InsertMessage '' /image cat'' ''user'' ''image_prompt'' ''u1'' ''c1'',
        InsertMessage ''data:image/png;base64,iVBORw0KGgo='' ''assistant'' ''image''
          ''u1'' ''c1'']"
  by code_simp

text \<open>
  Claim C5. The claim asks that a failed write of the user's message fails the call. The
  handler drops the reply to its first insert and reads only the reply to the second.
  With the store answering the user's insert with an error and carrying out the
  assistant's, the call returns a result, and the store holds the assistant's message
  without the user's.
\<close>

theorem user_insert_error_ignored:
  "outcome (sendMessage (calm\<lparr>user_insert_fault := ErrorReply ''violates check constraint''\<rparr>)
              alice (say ''hi'' (Some ''c1'')) empty_db) =
     Inr \<lparr>aiMessage = Some \<lparr>msg_id = ''i'', content = ''ok'', role = ''assistant'',
             message_type = ''text'', user_id = ''u1'', conversation_id = ''c1'',
             created_at = 0\<rparr>,
          result_conversationId = ''c1''\<rparr>
   \<and> messages (store (sendMessage
                        (calm\<lparr>user_insert_fault := ErrorReply ''violates check constraint''\<rparr>)
                        alice (say ''hi'' (Some ''c1'')) empty_db)) =
       [\<lparr>msg_id = ''i'', content = ''ok'', role = ''assistant'', message_type = ''text'',
         user_id = ''u1'', conversation_id = ''c1'', created_at = 0\<rparr>]"
  by code_simp

text \<open>
  Claim C9. The claim asks that an empty message is rejected as invalid input, as the
  test \<^verbatim>\<open>should handle malformed input data\<close> of the router expects. The parser of
  \<^verbatim>\<open>sendMessage\<close> is \<^verbatim>\<open>z.string()\<close> without a minimal length: the empty message passes it,
  the text model is called with an empty \<^verbatim>\<open>user\<close> turn, both messages are written and the
  call returns a result.
\<close>

theorem empty_message_accepted:
  "sendMessage_input (say '''' (Some ''c1'')) =
     Inr \<lparr>message = '''', conversationId = Some ''c1'', imageBase64 = None, mimeType = None\<rparr>
   \<and> outcome (sendMessage calm alice (say '''' (Some ''c1'')) empty_db) =
       Inr \<lparr>aiMessage = Some \<lparr>msg_id = ''ii'', content = ''ok'', role = ''assistant'',
               message_type = ''text'', user_id = ''u1'', conversation_id = ''c1'',
               created_at = 1\<rparr>,
            result_conversationId = ''c1''\<rparr>
   \<and> trace (sendMessage calm alice (say '''' (Some ''c1'')) empty_db) =
       [SelectHistory ''c1'' ''u1'', GenerateContent (Contents [Turn ''user'' '''']),
        InsertMessage '''' ''user'' ''text'' ''u1'' ''c1'',
        InsertMessage ''ok'' ''assistant'' ''text'' ''u1'' ''c1'']"
  by code_simp

end
